theory Spec2Isabelle
  imports Main "HOL-Library.Sublist" "HOL-Library.Multiset"
begin

section \<open>PubMed paper fetcher: strings\<close>

text \<open>
  Text is modelled as \<^typ>\<open>string\<close>, a list of 8-bit characters, read as the code
  points 0 to 255 of Python's \<open>str\<close> (ASCII and Latin-1). The operations below
  (\<open>str.lower\<close>, \<open>str.upper\<close>, \<open>str.strip\<close>, the regular expression class \<open>\w\<close>)
  follow Python's tables on these code points. Texts with code points above 255 are
  not part of the model.
\<close>

definition is_ascii_upper :: "char \<Rightarrow> bool" where
  "is_ascii_upper c = (65 \<le> (of_char c :: nat) \<and> (of_char c :: nat) \<le> 90)"

text \<open>
  The characters that \<open>str.lower()\<close> changes: \<open>A\<close>..\<open>Z\<close> and the capital letters of
  Latin-1, codes 192 to 222 without the multiplication sign 215.
\<close>

definition is_upper :: "char \<Rightarrow> bool" where
  "is_upper c =
     (is_ascii_upper c
      \<or> (192 \<le> (of_char c :: nat) \<and> (of_char c :: nat) \<le> 222 \<and> (of_char c :: nat) \<noteq> 215))"

text \<open>\<open>str.lower()\<close> on one character: a capital moves 32 codes up, to its small letter.\<close>

definition lower_char :: "char \<Rightarrow> char" where
  "lower_char c = (if is_upper c then char_of ((of_char c :: nat) + 32) else c)"

definition lower :: "string \<Rightarrow> string" where
  "lower s = map lower_char s"

text \<open>
  \<open>str.upper()\<close>, which the program never calls: it is here to say what the upper-case
  variant of a text is. A small letter moves 32 codes down, the sharp s (code 223)
  becomes \<open>SS\<close>, and the capitals of the micro sign (181) and of the y with diaeresis
  (255) lie above code 255: the upper case of a text that holds one of them is not a
  text of the model, which is the result \<open>None\<close>.
\<close>

definition upper_char :: "char \<Rightarrow> string option" where
  "upper_char c =
     (if (of_char c :: nat) = 181 \<or> (of_char c :: nat) = 255 then None
      else if (of_char c :: nat) = 223 then Some ''SS''
      else if (97 \<le> (of_char c :: nat) \<and> (of_char c :: nat) \<le> 122)
              \<or> (224 \<le> (of_char c :: nat) \<and> (of_char c :: nat) \<le> 254
                  \<and> (of_char c :: nat) \<noteq> 247)
           then Some [char_of ((of_char c :: nat) - 32)]
      else Some [c])"

fun upper :: "string \<Rightarrow> string option" where
  "upper [] = Some []"
| "upper (c # cs) =
     (case upper_char c of
        None \<Rightarrow> None
      | Some u \<Rightarrow> (case upper cs of None \<Rightarrow> None | Some us \<Rightarrow> Some (u @ us)))"

text \<open>Python's \<open>k in s\<close> for strings: \<open>k\<close> starts at some position of \<open>s\<close>.\<close>

fun starts_with :: "string \<Rightarrow> string \<Rightarrow> bool" where
  "starts_with [] s = True"
| "starts_with (k # ks) [] = False"
| "starts_with (k # ks) (c # cs) = (k = c \<and> starts_with ks cs)"

fun str_in :: "string \<Rightarrow> string \<Rightarrow> bool" where
  "str_in k [] = (k = [])"
| "str_in k (c # cs) = (starts_with k (c # cs) \<or> str_in k cs)"

text \<open>Python's \<open>any(p(k) for k in ks)\<close>: stops at the first hit.\<close>

fun any :: "('a \<Rightarrow> bool) \<Rightarrow> 'a list \<Rightarrow> bool" where
  "any p [] = False"
| "any p (k # ks) = (if p k then True else any p ks)"

section \<open>utils.py: the affiliation classifier\<close>

definition non_academic_keywords :: "string list" where
  "non_academic_keywords =
     [''pharma'', ''biotech'', ''inc'', ''ltd'', ''llc'', ''gmbh'', ''corp'', ''co'',
      ''industries'', ''solutions'', ''company'', ''laboratories'', ''lab'',
      ''research institute'']"

definition academic_keywords :: "string list" where
  "academic_keywords =
     [''university'', ''college'', ''school'', ''institute of technology'', ''faculty'',
      ''dept'', ''department'', ''hospital'', ''center'', ''centre'', ''academy'']"

definition is_non_academic_affiliation :: "string \<Rightarrow> bool" where
  "is_non_academic_affiliation affiliation =
     (let aff = lower affiliation
      in any (\<lambda>k. str_in k aff) non_academic_keywords
         \<and> \<not> any (\<lambda>k. str_in k aff) academic_keywords)"

text \<open>
  The classifier as the specification words it: a keyword occurs in a text, ignoring
  case, when some contiguous piece of the text lower-cases to the keyword.
\<close>

definition occurs_ignoring_case :: "string \<Rightarrow> string \<Rightarrow> bool" where
  "occurs_ignoring_case k s = (\<exists>ps m ss. s = ps @ m @ ss \<and> lower m = k)"

definition has_keyword :: "string list \<Rightarrow> string \<Rightarrow> bool" where
  "has_keyword ks s = (\<exists>k \<in> set ks. occurs_ignoring_case k s)"

text \<open>
  Two characters that are equal or the two cases of one ASCII letter, and two texts
  that differ at most in the case of their ASCII letters.
\<close>

definition same_ascii_letter :: "char \<Rightarrow> char \<Rightarrow> bool" where
  "same_ascii_letter a b =
     (a = b \<or> (is_ascii_upper a \<and> (of_char b :: nat) = of_char a + 32)
            \<or> (is_ascii_upper b \<and> (of_char a :: nat) = of_char b + 32))"

definition ascii_case_variant :: "string \<Rightarrow> string \<Rightarrow> bool" where
  "ascii_case_variant s t = list_all2 same_ascii_letter s t"

section \<open>fetcher.py: helpers of the extraction\<close>

text \<open>
  \<open>str.strip()\<close>: blanks are removed at both ends. The blanks are the codes 9 to 13,
  28 to 32, 133 (next line) and 160 (no-break space).
\<close>

definition is_space :: "char \<Rightarrow> bool" where
  "is_space c = ((9 \<le> (of_char c :: nat) \<and> (of_char c :: nat) \<le> 13)
                 \<or> (28 \<le> (of_char c :: nat) \<and> (of_char c :: nat) \<le> 32)
                 \<or> (of_char c :: nat) = 133 \<or> (of_char c :: nat) = 160)"

definition strip :: "string \<Rightarrow> string" where
  "strip s = rev (dropWhile is_space (rev (dropWhile is_space s)))"

text \<open>\<open>sep.join(items)\<close>.\<close>

fun join :: "string \<Rightarrow> string list \<Rightarrow> string" where
  "join sep [] = []"
| "join sep [x] = x"
| "join sep (x # y # ys) = x @ sep @ join sep (y # ys)"

text \<open>
  The pattern \<open>[\w\.-]+@[\w\.-]+\<close>. Both classes are the same and exclude \<open>@\<close>, so a
  match that starts at a position takes the longest run of class characters there, then
  \<open>@\<close>, then the longest run after it: giving characters back never helps.
  \<open>re.search\<close> tries the positions from left to right and returns the first match.
  \<open>\w\<close> is the underscore and every alphanumeric character: digits and letters of
  ASCII and, in Latin-1, the codes 170, 178, 179, 181, 185, 186, 188 to 190 and 192 to
  255 without the multiplication sign 215 and the division sign 247.
\<close>

definition is_word_char :: "char \<Rightarrow> bool" where
  "is_word_char c =
     ((48 \<le> (of_char c :: nat) \<and> (of_char c :: nat) \<le> 57)
      \<or> (65 \<le> (of_char c :: nat) \<and> (of_char c :: nat) \<le> 90)
      \<or> (of_char c :: nat) = 95
      \<or> (97 \<le> (of_char c :: nat) \<and> (of_char c :: nat) \<le> 122)
      \<or> (of_char c :: nat) = 170 \<or> (of_char c :: nat) = 178 \<or> (of_char c :: nat) = 179
      \<or> (of_char c :: nat) = 181 \<or> (of_char c :: nat) = 185 \<or> (of_char c :: nat) = 186
      \<or> (188 \<le> (of_char c :: nat) \<and> (of_char c :: nat) \<le> 190)
      \<or> (192 \<le> (of_char c :: nat) \<and> (of_char c :: nat) \<noteq> 215 \<and> (of_char c :: nat) \<noteq> 247))"

definition is_email_char :: "char \<Rightarrow> bool" where
  "is_email_char c = (is_word_char c \<or> c = CHR ''.'' \<or> c = CHR ''-'')"

definition match_email :: "string \<Rightarrow> string option" where
  "match_email s =
     (let local_part = takeWhile is_email_char s
      in if local_part = [] then None
         else (case dropWhile is_email_char s of
                 [] \<Rightarrow> None
               | c # cs \<Rightarrow>
                   if c = CHR ''@'' \<and> takeWhile is_email_char cs \<noteq> []
                   then Some (local_part @ [CHR ''@''] @ takeWhile is_email_char cs)
                   else None))"

fun re_search_email :: "string \<Rightarrow> string option" where
  "re_search_email [] = None"
| "re_search_email (c # cs) =
     (case match_email (c # cs) of
        Some m \<Rightarrow> Some m
      | None \<Rightarrow> re_search_email cs)"

text \<open>
  \<open>set(items)\<close> inserts the items one after the other and ignores an item that is
  already there. The order in which a set is then iterated is decided by the hashes of
  its members: it is a parameter \<open>h\<close> of the model, which rearranges the members.
\<close>

definition set_add :: "string list \<Rightarrow> string \<Rightarrow> string list" where
  "set_add members x = (if x \<in> set members then members else members @ [x])"

definition py_set :: "string list \<Rightarrow> string list" where
  "py_set items = foldl set_add [] items"

definition is_permuting :: "(string list \<Rightarrow> string list) \<Rightarrow> bool" where
  "is_permuting h = (\<forall>xs. mset (h xs) = mset xs)"

definition set_items :: "(string list \<Rightarrow> string list) \<Rightarrow> string list \<Rightarrow> string list" where
  "set_items h items = h (py_set items)"

section \<open>fetcher.py: the records returned by the service\<close>

text \<open>
  The parsed response is a nesting of dictionaries and lists. A key that the code reads is a
  field holding \<open>None\<close> when the dictionary lacks it.
\<close>

record affiliation_info =
  Affiliation :: "string option"

record author =
  ForeName :: "string option"
  LastName :: "string option"
  AffiliationInfo :: "affiliation_info list option"

record pub_date =
  Year :: "string option"
  Month :: "string option"
  Day :: "string option"

record journal_issue =
  PubDate :: "pub_date option"

record journal =
  JournalIssue :: "journal_issue option"

record article =
  ArticleTitle :: "string option"
  Journal :: "journal option"
  AuthorList :: "author list option"

record medline_citation =
  Article :: "article option"

record pubmed_article =
  MedlineCitation :: "medline_citation option"

record efetch_record =
  PubmedArticle :: "pubmed_article list option"

record esearch_record =
  IdList :: "string list option"

text \<open>The dictionary that \<open>fetch_paper_details\<close> returns.\<close>

record paper =
  PubmedID :: string
  Title :: string
  Publication_Date :: string
  Non_academic_Authors :: string
  Company_Affiliations :: string
  Corresponding_Author_Email :: string

datatype error = KeyError string | IndexError | ServiceError string

text \<open>\<open>d.get(key, '')\<close>.\<close>

fun get_str :: "string option \<Rightarrow> string" where
  "get_str None = []"
| "get_str (Some v) = v"

section \<open>fetcher.py: \<open>fetch_paper_details\<close>\<close>

text \<open>The three accumulators of the loop over the authors.\<close>

record scan_state =
  non_academic_authors :: "string list"
  company_affiliations :: "string list"
  corresponding_email :: string

definition scan_init :: scan_state where
  "scan_init = \<lparr>non_academic_authors = [], company_affiliations = [], corresponding_email = []\<rparr>"

text \<open>The body of the inner loop, for one affiliation of one author.\<close>

definition scan_affiliation :: "author \<Rightarrow> scan_state \<Rightarrow> affiliation_info \<Rightarrow> scan_state" where
  "scan_affiliation au st aff =
     (let aff_text = get_str (Affiliation aff)
      in if is_non_academic_affiliation aff_text
         then (let fullname = strip (get_str (ForeName au) @ '' '' @ get_str (LastName au));
                   st1 = st\<lparr>non_academic_authors := non_academic_authors st @ [fullname],
                             company_affiliations := company_affiliations st @ [aff_text]\<rparr>
               in (case re_search_email aff_text of
                     Some m \<Rightarrow> st1\<lparr>corresponding_email := m\<rparr>
                   | None \<Rightarrow> st1))
         else st)"

definition scan_author :: "scan_state \<Rightarrow> author \<Rightarrow> scan_state" where
  "scan_author st au =
     (case AffiliationInfo au of
        None \<Rightarrow> st
      | Some affiliations \<Rightarrow> foldl (scan_affiliation au) st affiliations)"

definition scan_authors :: "author list \<Rightarrow> scan_state" where
  "scan_authors authors = foldl scan_author scan_init authors"

text \<open>\<open>article_data.get("AuthorList", [])\<close>.\<close>

definition author_list :: "article \<Rightarrow> author list" where
  "author_list article_data = (case AuthorList article_data of None \<Rightarrow> [] | Some authors \<Rightarrow> authors)"

text \<open>
  \<open>article_data.get("Journal", {}).get("JournalIssue", {}).get("PubDate", {})\<close>: a
  missing level is the empty dictionary, whose every key is absent.
\<close>

definition pub_date_of :: "article \<Rightarrow> pub_date" where
  "pub_date_of article_data =
     (case Journal article_data of
        None \<Rightarrow> \<lparr>Year = None, Month = None, Day = None\<rparr>
      | Some j \<Rightarrow>
          (case JournalIssue j of
             None \<Rightarrow> \<lparr>Year = None, Month = None, Day = None\<rparr>
           | Some ji \<Rightarrow>
               (case PubDate ji of
                  None \<Rightarrow> \<lparr>Year = None, Month = None, Day = None\<rparr>
                | Some pd \<Rightarrow> pd)))"

definition date_str :: "pub_date \<Rightarrow> string" where
  "date_str pd = get_str (Year pd) @ ''-'' @ get_str (Month pd) @ ''-'' @ get_str (Day pd)"

text \<open>The members of the two sets, in the order in which \<open>join\<close> meets them.\<close>

definition author_items :: "(string list \<Rightarrow> string list) \<Rightarrow> article \<Rightarrow> string list" where
  "author_items h article_data =
     set_items h (non_academic_authors (scan_authors (author_list article_data)))"

definition affiliation_items :: "(string list \<Rightarrow> string list) \<Rightarrow> article \<Rightarrow> string list" where
  "affiliation_items h article_data =
     set_items h (company_affiliations (scan_authors (author_list article_data)))"

text \<open>Lines 28 to 57: the dictionary built from the article.\<close>

definition paper_of_article :: "(string list \<Rightarrow> string list) \<Rightarrow> article \<Rightarrow> string \<Rightarrow> paper" where
  "paper_of_article h article_data pmid =
     \<lparr>PubmedID = pmid,
      Title = get_str (ArticleTitle article_data),
      Publication_Date = date_str (pub_date_of article_data),
      Non_academic_Authors = join '', '' (author_items h article_data),
      Company_Affiliations = join '', '' (affiliation_items h article_data),
      Corresponding_Author_Email =
        corresponding_email (scan_authors (author_list article_data))\<rparr>"

text \<open>
  Lines 24 to 26, \<open>record["PubmedArticle"][0]["MedlineCitation"]["Article"]\<close>: a
  missing key raises \<open>KeyError\<close>, an empty list of articles \<open>IndexError\<close>.
\<close>

definition article_of_record :: "efetch_record \<Rightarrow> error + article" where
  "article_of_record r =
     (case PubmedArticle r of
        None \<Rightarrow> Inl (KeyError ''PubmedArticle'')
      | Some [] \<Rightarrow> Inl IndexError
      | Some (a # _) \<Rightarrow>
          (case MedlineCitation a of
             None \<Rightarrow> Inl (KeyError ''MedlineCitation'')
           | Some medline \<Rightarrow>
               (case Article medline of
                  None \<Rightarrow> Inl (KeyError ''Article'')
                | Some article_data \<Rightarrow> Inr article_data)))"

text \<open>Everything after the record has been read: extraction from one raw record.\<close>

definition extract_paper :: "(string list \<Rightarrow> string list) \<Rightarrow> efetch_record \<Rightarrow> string \<Rightarrow> error + paper" where
  "extract_paper h r pmid =
     (case article_of_record r of
        Inl e \<Rightarrow> Inl e
      | Inr article_data \<Rightarrow> Inr (paper_of_article h article_data pmid))"

text \<open>
  \<open>efetch\<close> is one call of the remote service for one identifier: it raises or
  returns a parsed record.
\<close>

definition fetch_paper_details ::
  "(string \<Rightarrow> error + efetch_record) \<Rightarrow> (string list \<Rightarrow> string list) \<Rightarrow> string \<Rightarrow> error + paper" where
  "fetch_paper_details efetch h pmid =
     (case efetch pmid of
        Inl e \<Rightarrow> Inl e
      | Inr r \<Rightarrow> extract_paper h r pmid)"

section \<open>fetcher.py: \<open>fetch_pubmed_ids\<close> and \<open>fetch_papers\<close>\<close>

definition fetch_pubmed_ids ::
  "(string \<Rightarrow> nat \<Rightarrow> error + esearch_record) \<Rightarrow> string \<Rightarrow> nat \<Rightarrow> error + string list" where
  "fetch_pubmed_ids esearch query retmax =
     (case esearch query retmax of
        Inl e \<Rightarrow> Inl e
      | Inr r \<Rightarrow> (case IdList r of None \<Rightarrow> Inl (KeyError ''IdList'') | Some ids \<Rightarrow> Inr ids))"

text \<open>
  The root logger: \<open>basicConfig\<close> installs a handler and sets the level only when no
  handler is installed yet; a message is emitted when its level reaches the logger's.
\<close>

datatype log_message =
  Fetching_ids string
| Found_ids "string list"
| Error_fetching string error

record logger =
  has_handlers :: bool
  level :: nat
  emitted :: "log_message list"

definition DEBUG :: nat where "DEBUG = 10"
definition INFO :: nat where "INFO = 20"
definition ERROR :: nat where "ERROR = 40"

definition basicConfig :: "nat \<Rightarrow> logger \<Rightarrow> logger" where
  "basicConfig lvl lg =
     (if has_handlers lg then lg else lg\<lparr>has_handlers := True, level := lvl\<rparr>)"

definition log :: "nat \<Rightarrow> log_message \<Rightarrow> logger \<Rightarrow> logger" where
  "log lvl msg lg = (if level lg \<le> lvl then lg\<lparr>emitted := emitted lg @ [msg]\<rparr> else lg)"

text \<open>
  The loop of \<open>fetch_papers\<close>. The service is asked once for each identifier, in order;
  \<open>efetch n\<close> is its \<open>n\<close>-th call, so that two calls for one identifier may differ.
\<close>

fun fetch_loop ::
  "(nat \<Rightarrow> string \<Rightarrow> error + efetch_record) \<Rightarrow> (string list \<Rightarrow> string list) \<Rightarrow>
   nat \<Rightarrow> string list \<Rightarrow> paper list \<times> logger \<Rightarrow> paper list \<times> logger" where
  "fetch_loop efetch h n [] (papers, lg) = (papers, lg)"
| "fetch_loop efetch h n (pmid # pmids) (papers, lg) =
     (case fetch_paper_details (efetch n) h pmid of
        Inl e \<Rightarrow> fetch_loop efetch h (Suc n) pmids (papers, log ERROR (Error_fetching pmid e) lg)
      | Inr p \<Rightarrow>
          if Non_academic_Authors p \<noteq> []
          then fetch_loop efetch h (Suc n) pmids (papers @ [p], lg)
          else fetch_loop efetch h (Suc n) pmids (papers, lg))"

definition fetch_papers ::
  "(string \<Rightarrow> nat \<Rightarrow> error + esearch_record) \<Rightarrow> (nat \<Rightarrow> string \<Rightarrow> error + efetch_record) \<Rightarrow>
   (string list \<Rightarrow> string list) \<Rightarrow> string \<Rightarrow> bool \<Rightarrow> logger \<Rightarrow> (error + paper list) \<times> logger" where
  "fetch_papers esearch efetch h query debug lg0 =
     (let lg1 = basicConfig (if debug then DEBUG else INFO) lg0;
          lg2 = log INFO (Fetching_ids query) lg1
      in (case fetch_pubmed_ids esearch query 20 of
            Inl e \<Rightarrow> (Inl e, lg2)
          | Inr pmids \<Rightarrow>
              (let lg3 = log DEBUG (Found_ids pmids) lg2;
                   (papers, lg4) = fetch_loop efetch h 0 pmids ([], lg3)
               in (Inr papers, lg4))))"

section \<open>Notions used to state the properties\<close>

text \<open>
  The affiliation texts of an author list in the order the two loops meet them, those
  the classifier accepts, and the e-mail addresses found in the accepted ones.
\<close>

definition author_affiliation_texts :: "author \<Rightarrow> string list" where
  "author_affiliation_texts au =
     (case AffiliationInfo au of
        None \<Rightarrow> []
      | Some affiliations \<Rightarrow> map (\<lambda>aff. get_str (Affiliation aff)) affiliations)"

definition affiliation_texts :: "author list \<Rightarrow> string list" where
  "affiliation_texts authors = concat (map author_affiliation_texts authors)"

definition non_academic_texts :: "author list \<Rightarrow> string list" where
  "non_academic_texts authors = filter is_non_academic_affiliation (affiliation_texts authors)"

definition scanned_emails :: "author list \<Rightarrow> string list" where
  "scanned_emails authors = List.map_filter re_search_email (non_academic_texts authors)"

text \<open>
  The display name of an author, and the names the loops collect: an author's name
  once for each of the author's affiliations that the classifier accepts.
\<close>

definition full_name :: "author \<Rightarrow> string" where
  "full_name au = strip (get_str (ForeName au) @ '' '' @ get_str (LastName au))"

definition author_names :: "author \<Rightarrow> string list" where
  "author_names au =
     map (\<lambda>a. full_name au) (filter is_non_academic_affiliation (author_affiliation_texts au))"

definition non_academic_names :: "author list \<Rightarrow> string list" where
  "non_academic_names authors = concat (map author_names authors)"

fun first_email :: "string list \<Rightarrow> string" where
  "first_email [] = []"
| "first_email (e # es) = e"

fun last_email :: "string list \<Rightarrow> string" where
  "last_email [] = []"
| "last_email [e] = e"
| "last_email (e # e' # es) = last_email (e' # es)"

text \<open>
  The segment that a component of the date gives: the empty text when it is missing.
  The segments of a text between the occurrences of a separator character.
\<close>

abbreviation segment :: "string option \<Rightarrow> string" where
  "segment x \<equiv> (case x of None \<Rightarrow> [] | Some v \<Rightarrow> v)"

fun split_on :: "char \<Rightarrow> string \<Rightarrow> string list" where
  "split_on sep [] = [Nil]"
| "split_on sep (c # cs) =
     (if c = sep then [] # split_on sep cs
      else (case split_on sep cs of
              [] \<Rightarrow> [c] # Nil
            | seg # segs \<Rightarrow> (c # seg) # segs))"

text \<open>
  Lines 72 to 77, what one pass of the loop of \<open>fetch_papers\<close> appends to the result:
  nothing when the fetch or the extraction raises, nothing when the author field of the
  summary is the empty text (the test of line 74), the summary otherwise.
\<close>

definition loop_contribution ::
  "(nat \<Rightarrow> string \<Rightarrow> error + efetch_record) \<Rightarrow> (string list \<Rightarrow> string list) \<Rightarrow>
   nat \<times> string \<Rightarrow> paper list" where
  "loop_contribution efetch h np =
     (case fetch_paper_details (efetch (fst np)) h (snd np) of
        Inl e \<Rightarrow> []
      | Inr p \<Rightarrow> if Non_academic_Authors p \<noteq> [] then [p] else [])"

definition loop_summaries ::
  "(nat \<Rightarrow> string \<Rightarrow> error + efetch_record) \<Rightarrow> (string list \<Rightarrow> string list) \<Rightarrow>
   string list \<Rightarrow> paper list" where
  "loop_summaries efetch h pmids = concat (map (loop_contribution efetch h) (List.enumerate 0 pmids))"

text \<open>
  The summaries that the specification retains: an identifier qualifies when its
  record is fetched, its summary is extracted, and the set of non-academic authors of
  the summary is not empty. The qualifying summaries of a batch, in the order of the
  search.
\<close>

definition qualifying_contribution ::
  "(nat \<Rightarrow> string \<Rightarrow> error + efetch_record) \<Rightarrow> (string list \<Rightarrow> string list) \<Rightarrow>
   nat \<times> string \<Rightarrow> paper list" where
  "qualifying_contribution efetch h np =
     (case efetch (fst np) (snd np) of
        Inl e \<Rightarrow> []
      | Inr r \<Rightarrow>
          (case article_of_record r of
             Inl e \<Rightarrow> []
           | Inr article_data \<Rightarrow>
               if author_items h article_data \<noteq> []
               then [paper_of_article h article_data (snd np)]
               else []))"

definition qualifying_summaries ::
  "(nat \<Rightarrow> string \<Rightarrow> error + efetch_record) \<Rightarrow> (string list \<Rightarrow> string list) \<Rightarrow>
   string list \<Rightarrow> paper list" where
  "qualifying_summaries efetch h pmids =
     concat (map (qualifying_contribution efetch h) (List.enumerate 0 pmids))"

section \<open>Sample inputs\<close>

definition jane_doe :: author where
  "jane_doe =
     \<lparr>ForeName = Some ''Jane'', LastName = Some ''Doe'',
      AffiliationInfo = Some [\<lparr>Affiliation = Some ''Acme Inc a@x.org''\<rparr>,
                              \<lparr>Affiliation = Some ''Beta Ltd b@y.org''\<rparr>]\<rparr>"

definition john_roe :: author where
  "john_roe =
     \<lparr>ForeName = Some ''John'', LastName = Some ''Roe'',
      AffiliationInfo = Some [\<lparr>Affiliation = Some ''X University''\<rparr>,
                              \<lparr>Affiliation = Some ''Acme Inc a@x.org''\<rparr>]\<rparr>"

definition sample_article :: article where
  "sample_article =
     \<lparr>ArticleTitle = Some ''A trial'',
      Journal = Some \<lparr>JournalIssue = Some \<lparr>PubDate = Some \<lparr>Year = Some ''2020'',
                                                                Month = Some ''Jan'',
                                                                Day = None\<rparr>\<rparr>\<rparr>,
      AuthorList = Some [jane_doe, john_roe]\<rparr>"

definition two_email_article :: article where
  "two_email_article = \<lparr>ArticleTitle = None, Journal = None, AuthorList = Some [jane_doe]\<rparr>"

definition ann_lee :: author where
  "ann_lee =
     \<lparr>ForeName = Some ''Ann'', LastName = Some ''Lee'',
      AffiliationInfo = Some [\<lparr>Affiliation = Some ''X University''\<rparr>]\<rparr>"

definition academic_article :: article where
  "academic_article = \<lparr>ArticleTitle = None, Journal = None, AuthorList = Some [ann_lee]\<rparr>"






definition no_issue_article :: article where
  "no_issue_article =
     \<lparr>ArticleTitle = None, Journal = Some \<lparr>JournalIssue = None\<rparr>, AuthorList = None\<rparr>"

definition no_pubdate_article :: article where
  "no_pubdate_article =
     \<lparr>ArticleTitle = None, Journal = Some \<lparr>JournalIssue = Some \<lparr>PubDate = None\<rparr>\<rparr>,
      AuthorList = None\<rparr>"

definition dashed_article :: article where
  "dashed_article =
     \<lparr>ArticleTitle = None,
      Journal = Some \<lparr>JournalIssue = Some \<lparr>PubDate = Some \<lparr>Year = Some ''2020'',
                                                                Month = Some ''Jan-Feb'',
                                                                Day = Some ''15''\<rparr>\<rparr>\<rparr>,
      AuthorList = None\<rparr>"

definition sample_summary :: "string \<Rightarrow> paper" where
  "sample_summary pmid =
     \<lparr>PubmedID = pmid, Title = ''A trial'', Publication_Date = ''2020-Jan-'',
      Non_academic_Authors = ''Jane Doe, John Roe'',
      Company_Affiliations = ''Acme Inc a@x.org, Beta Ltd b@y.org'',
      Corresponding_Author_Email = ''a@x.org''\<rparr>"

definition sample_record :: efetch_record where
  "sample_record =
     \<lparr>PubmedArticle = Some [\<lparr>MedlineCitation = Some \<lparr>Article = Some sample_article\<rparr>\<rparr>]\<rparr>"

definition sample_esearch :: "string \<Rightarrow> nat \<Rightarrow> error + esearch_record" where
  "sample_esearch query retmax = Inr \<lparr>IdList = Some [''A'', ''B'', ''C'']\<rparr>"

definition sample_efetch :: "nat \<Rightarrow> string \<Rightarrow> error + efetch_record" where
  "sample_efetch n pmid =
     (if pmid = ''B'' then Inl (ServiceError ''timeout'') else Inr sample_record)"

definition sample_logger :: logger where
  "sample_logger = \<lparr>has_handlers = False, level = 30, emitted = []\<rparr>"

section \<open>Strings: facts\<close>

lemma starts_with_prefix: "starts_with k s = prefix k s"
  by (induction k s rule: starts_with.induct) auto

lemma str_in_sublist: "str_in k s = sublist k s"
  by (induction s) (auto simp: starts_with_prefix sublist_Cons_right)

lemma any_set: "any p ks = (\<exists>k \<in> set ks. p k)"
  by (induction ks) auto

lemma sublist_map_iff:
  "sublist k (map f s) \<longleftrightarrow> (\<exists>ps m ss. s = ps @ m @ ss \<and> map f m = k)"
proof
  assume "sublist k (map f s)"
  then obtain ps' ss' where "map f s = ps' @ k @ ss'"
    by (auto simp: sublist_def)
  then obtain ps r where s: "s = ps @ r" and r: "map f r = k @ ss'"
    by (metis map_eq_append_conv)
  from r obtain m ss where "r = m @ ss" "map f m = k"
    by (metis map_eq_append_conv)
  with s show "\<exists>ps m ss. s = ps @ m @ ss \<and> map f m = k" by blast
next
  assume "\<exists>ps m ss. s = ps @ m @ ss \<and> map f m = k"
  then obtain ps m ss where "s = ps @ m @ ss" "map f m = k" by blast
  then have "map f s = map f ps @ k @ map f ss" by simp
  then show "sublist k (map f s)" unfolding sublist_def by blast
qed

lemma str_in_lower: "str_in k (lower s) = occurs_ignoring_case k s"
  by (simp add: str_in_sublist lower_def occurs_ignoring_case_def sublist_map_iff)

lemma any_keyword: "any (\<lambda>k. str_in k (lower s)) ks = has_keyword ks s"
  by (simp add: any_set str_in_lower has_keyword_def)

lemma classifier_spec:
  "is_non_academic_affiliation s
     = (has_keyword non_academic_keywords s \<and> \<not> has_keyword academic_keywords s)"
  by (simp add: is_non_academic_affiliation_def any_keyword)

lemma same_ascii_letter_lower: "same_ascii_letter a b \<Longrightarrow> lower_char a = lower_char b"
proof -
  assume h: "same_ascii_letter a b"
  have up: "lower_char x = y"
    if "is_ascii_upper x" "(of_char y :: nat) = of_char x + 32" for x y
  proof -
    have "char_of ((of_char x :: nat) + 32) = char_of (of_char y :: nat)"
      using that by simp
    then have "char_of ((of_char x :: nat) + 32) = y"
      by simp
    then show ?thesis using that by (simp add: lower_char_def is_upper_def)
  qed
  have lo: "lower_char y = y"
    if "is_ascii_upper x" "(of_char y :: nat) = of_char x + 32" for x y
    using that by (simp add: lower_char_def is_upper_def is_ascii_upper_def)
  from h show ?thesis
    unfolding same_ascii_letter_def using up lo by metis
qed

lemma ascii_case_variant_lower: "ascii_case_variant s t \<Longrightarrow> lower s = lower t"
  unfolding ascii_case_variant_def lower_def
  by (induction s t rule: list_all2_induct) (simp_all add: same_ascii_letter_lower)

section \<open>The loop over the authors: facts\<close>

lemma map_filter_append: "List.map_filter f (xs @ ys) = List.map_filter f xs @ List.map_filter f ys"
  by (simp add: List.map_filter_def)

lemma last_email_last: "last_email es = last ([] # es)"
  by (induction es rule: last_email.induct) simp_all

lemma last_last: "last (last (d # xs) # ys) = last (d # xs @ ys)"
  by (cases ys) simp_all

lemma scan_affiliation_affs:
  "company_affiliations (scan_affiliation au st aff)
     = company_affiliations st @ filter is_non_academic_affiliation [get_str (Affiliation aff)]"
  by (simp add: scan_affiliation_def Let_def split: option.splits)

lemma scan_affiliation_names:
  "length (non_academic_authors (scan_affiliation au st aff))
     = length (non_academic_authors st)
       + length (filter is_non_academic_affiliation [get_str (Affiliation aff)])"
  by (simp add: scan_affiliation_def Let_def split: option.splits)

lemma scan_affiliation_email:
  "corresponding_email (scan_affiliation au st aff)
     = last (corresponding_email st
             # List.map_filter re_search_email
                 (filter is_non_academic_affiliation [get_str (Affiliation aff)]))"
  by (simp add: scan_affiliation_def Let_def List.map_filter_def split: option.splits)

lemma fold_affiliations_affs:
  "company_affiliations (foldl (scan_affiliation au) st affs)
     = company_affiliations st
       @ filter is_non_academic_affiliation (map (\<lambda>aff. get_str (Affiliation aff)) affs)"
  by (induction affs arbitrary: st) (simp_all add: scan_affiliation_affs)

lemma fold_affiliations_names:
  "length (non_academic_authors (foldl (scan_affiliation au) st affs))
     = length (non_academic_authors st)
       + length (filter is_non_academic_affiliation (map (\<lambda>aff. get_str (Affiliation aff)) affs))"
  by (induction affs arbitrary: st) (simp_all add: scan_affiliation_names)

lemma fold_affiliations_email:
  "corresponding_email (foldl (scan_affiliation au) st affs)
     = last (corresponding_email st
             # List.map_filter re_search_email
                 (filter is_non_academic_affiliation (map (\<lambda>aff. get_str (Affiliation aff)) affs)))"
proof (induction affs arbitrary: st)
  case Nil
  show ?case by (simp add: List.map_filter_def)
next
  case (Cons a affs)
  have "filter is_non_academic_affiliation (map (\<lambda>aff. get_str (Affiliation aff)) (a # affs))
      = filter is_non_academic_affiliation [get_str (Affiliation a)]
        @ filter is_non_academic_affiliation (map (\<lambda>aff. get_str (Affiliation aff)) affs)"
    by simp
  then show ?case
    by (simp only: foldl_Cons Cons.IH scan_affiliation_email last_last map_filter_append)
qed

lemma scan_author_affs:
  "company_affiliations (scan_author st au)
     = company_affiliations st @ filter is_non_academic_affiliation (author_affiliation_texts au)"
  by (simp add: scan_author_def author_affiliation_texts_def fold_affiliations_affs
           split: option.splits)

lemma scan_author_names:
  "length (non_academic_authors (scan_author st au))
     = length (non_academic_authors st)
       + length (filter is_non_academic_affiliation (author_affiliation_texts au))"
  by (simp add: scan_author_def author_affiliation_texts_def fold_affiliations_names
           split: option.splits)

lemma scan_author_email:
  "corresponding_email (scan_author st au)
     = last (corresponding_email st
             # List.map_filter re_search_email
                 (filter is_non_academic_affiliation (author_affiliation_texts au)))"
  by (simp add: scan_author_def author_affiliation_texts_def fold_affiliations_email
           List.map_filter_def split: option.splits)

lemma fold_authors_affs:
  "company_affiliations (foldl scan_author st authors)
     = company_affiliations st @ non_academic_texts authors"
  by (induction authors arbitrary: st)
     (simp_all add: scan_author_affs non_academic_texts_def affiliation_texts_def)

lemma fold_authors_names:
  "length (non_academic_authors (foldl scan_author st authors))
     = length (non_academic_authors st) + length (non_academic_texts authors)"
  by (induction authors arbitrary: st)
     (simp_all add: scan_author_names non_academic_texts_def affiliation_texts_def)

lemma fold_authors_email:
  "corresponding_email (foldl scan_author st authors)
     = last (corresponding_email st # scanned_emails authors)"
proof (induction authors arbitrary: st)
  case Nil
  show ?case
    by (simp add: scanned_emails_def non_academic_texts_def affiliation_texts_def
                  List.map_filter_def)
next
  case (Cons a authors)
  have "scanned_emails (a # authors)
      = List.map_filter re_search_email
          (filter is_non_academic_affiliation (author_affiliation_texts a))
        @ scanned_emails authors"
    by (simp add: scanned_emails_def non_academic_texts_def affiliation_texts_def
                  map_filter_append)
  then show ?case
    by (simp only: foldl_Cons Cons.IH scan_author_email last_last)
qed

lemma scan_authors_affs: "company_affiliations (scan_authors authors) = non_academic_texts authors"
  by (simp add: scan_authors_def fold_authors_affs scan_init_def)

lemma scan_authors_names:
  "length (non_academic_authors (scan_authors authors)) = length (non_academic_texts authors)"
  by (simp add: scan_authors_def fold_authors_names scan_init_def)

lemma scan_authors_email:
  "corresponding_email (scan_authors authors) = last_email (scanned_emails authors)"
  by (simp add: scan_authors_def fold_authors_email scan_init_def last_email_last)

section \<open>Sets, joined fields and the batch loop: facts\<close>

lemma classifier_empty: "\<not> is_non_academic_affiliation []"
  by code_simp

lemma join_empty_iff: "sep \<noteq> [] \<Longrightarrow> join sep xs = [] \<longleftrightarrow> xs = [] \<or> xs = [Nil]"
  by (induction sep xs rule: join.induct) simp_all

lemma distinct_all_empty:
  "distinct xs \<Longrightarrow> \<forall>x \<in> set xs. x = [] \<Longrightarrow> xs = [] \<or> xs = [Nil]"
proof (cases xs)
  case Nil
  then show ?thesis by simp
next
  case (Cons a rest)
  assume d: "distinct xs" and e: "\<forall>x \<in> set xs. x = []"
  from Cons e have a: "a = []" by simp
  have "rest = []"
  proof (cases rest)
    case Nil
    then show ?thesis .
  next
    case (Cons b rest')
    with \<open>xs = a # rest\<close> e have "b = []" by simp
    with a d \<open>xs = a # rest\<close> Cons show ?thesis by simp
  qed
  with a Cons show ?thesis by simp
qed

lemma join_nonempty_iff:
  assumes "distinct xs" "sep \<noteq> []"
  shows "join sep xs \<noteq> [] \<longleftrightarrow> (\<exists>x \<in> set xs. x \<noteq> [])"
proof
  assume "join sep xs \<noteq> []"
  with assms have "xs \<noteq> []" "xs \<noteq> [Nil]" by (auto simp: join_empty_iff)
  then show "\<exists>x \<in> set xs. x \<noteq> []"
    using distinct_all_empty [OF assms(1)] by blast
next
  assume "\<exists>x \<in> set xs. x \<noteq> []"
  then have "xs \<noteq> []" "xs \<noteq> [Nil]" by auto
  with assms show "join sep xs \<noteq> []" by (simp add: join_empty_iff)
qed

lemma set_fold_set_add: "set (foldl set_add acc xs) = set acc \<union> set xs"
  by (induction xs arbitrary: acc) (auto simp: set_add_def)

lemma distinct_fold_set_add: "distinct acc \<Longrightarrow> distinct (foldl set_add acc xs)"
  by (induction xs arbitrary: acc) (auto simp: set_add_def)

lemma set_py_set: "set (py_set xs) = set xs"
  by (simp add: py_set_def set_fold_set_add)

lemma distinct_py_set: "distinct (py_set xs)"
  by (simp add: py_set_def distinct_fold_set_add)

lemma set_set_items: "is_permuting h \<Longrightarrow> set (set_items h xs) = set xs"
proof -
  assume "is_permuting h"
  then have "mset (h (py_set xs)) = mset (py_set xs)" by (simp add: is_permuting_def)
  then have "set (h (py_set xs)) = set (py_set xs)" by (rule mset_eq_setD)
  then show ?thesis by (simp add: set_items_def set_py_set)
qed

lemma distinct_set_items: "is_permuting h \<Longrightarrow> distinct (set_items h xs)"
proof -
  assume "is_permuting h"
  then have "mset (h (py_set xs)) = mset (py_set xs)" by (simp add: is_permuting_def)
  then have "distinct (h (py_set xs)) = distinct (py_set xs)" by (rule mset_eq_imp_distinct_iff)
  then show ?thesis by (simp add: set_items_def distinct_py_set)
qed

lemma is_permuting_id: "is_permuting id"
  by (simp add: is_permuting_def)

lemma is_permuting_rev: "is_permuting rev"
  by (simp add: is_permuting_def)

lemma count_list_distinct: "distinct xs \<Longrightarrow> x \<in> set xs \<Longrightarrow> count_list xs x = 1"
  by (induction xs) auto

lemma names_empty_iff:
  "non_academic_authors (scan_authors authors) = [] \<longleftrightarrow> non_academic_texts authors = []"
  using scan_authors_names [of authors] by (metis length_0_conv)

lemma non_academic_texts_nonempty: "a \<in> set (non_academic_texts authors) \<Longrightarrow> a \<noteq> []"
  using classifier_empty by (auto simp: non_academic_texts_def)

lemma split_on_plain: "sep \<notin> set a \<Longrightarrow> split_on sep a = [a]"
  by (induction a) auto

lemma split_on_append: "sep \<notin> set a \<Longrightarrow> split_on sep (a @ sep # rest) = a # split_on sep rest"
  by (induction a) auto

lemma fetch_loop_papers:
  "fst (fetch_loop efetch h n pmids (papers, lg))
     = papers @ concat (map (loop_contribution efetch h) (List.enumerate n pmids))"
  by (induction pmids arbitrary: n papers lg)
     (simp_all add: loop_contribution_def split: sum.splits)

lemma fetch_papers_found:
  "fetch_pubmed_ids esearch query 20 = Inr pmids \<Longrightarrow>
   fst (fetch_papers esearch efetch h query debug lg) = Inr (loop_summaries efetch h pmids)"
  by (simp add: fetch_papers_def Let_def loop_summaries_def case_prod_beta
                fetch_loop_papers)

lemma fetch_papers_failed:
  "fetch_pubmed_ids esearch query 20 = Inl e \<Longrightarrow>
   fst (fetch_papers esearch efetch h query debug lg) = Inl e"
  by (simp add: fetch_papers_def Let_def)

lemma contribution_member:
  "p \<in> set (loop_contribution efetch h (n, pmid)) \<Longrightarrow>
   Non_academic_Authors p \<noteq> []
   \<and> (\<exists>r article_data. efetch n pmid = Inr r \<and> article_of_record r = Inr article_data
        \<and> p = paper_of_article h article_data pmid)"
  by (auto simp: loop_contribution_def fetch_paper_details_def extract_paper_def
           split: sum.splits if_splits)

lemma loop_member:
  "p \<in> set (loop_summaries efetch h pmids) \<Longrightarrow>
   \<exists>n pmid. pmid \<in> set pmids \<and> p \<in> set (loop_contribution efetch h (n, pmid))"
  by (auto simp: loop_summaries_def in_set_enumerate_eq) (metis nth_mem)

lemma contribution_pmid:
  "loop_contribution efetch h (n, pmid) = [] \<or>
   (\<exists>p. loop_contribution efetch h (n, pmid) = [p] \<and> PubmedID p = pmid)"
  by (auto simp: loop_contribution_def fetch_paper_details_def extract_paper_def paper_of_article_def
           split: sum.splits)

lemma subseq_contributions:
  "subseq (map PubmedID (concat (map (loop_contribution efetch h) (List.enumerate n pmids)))) pmids"
proof (induction pmids arbitrary: n)
  case Nil
  show ?case by simp
next
  case (Cons pmid pmids)
  from contribution_pmid [of efetch h n pmid] show ?case
    using Cons.IH [of "Suc n"] by auto
qed

lemma surfaced_paper:
  assumes "fst (fetch_papers esearch efetch h query debug lg) = Inr papers" "p \<in> set papers"
  shows "Non_academic_Authors p \<noteq> []
         \<and> (\<exists>n pmid r article_data. efetch n pmid = Inr r
               \<and> article_of_record r = Inr article_data
               \<and> p = paper_of_article h article_data pmid)"
proof (cases "fetch_pubmed_ids esearch query 20")
  case (Inl e)
  with assms(1) show ?thesis by (simp add: fetch_papers_failed)
next
  case (Inr pmids)
  with assms have "p \<in> set (loop_summaries efetch h pmids)"
    by (simp add: fetch_papers_found)
  then obtain n pmid where "p \<in> set (loop_contribution efetch h (n, pmid))"
    using loop_member by blast
  then show ?thesis
    using contribution_member [of p efetch h n pmid] by blast
qed

lemma named_author_items:
  assumes "is_permuting h" "Non_academic_Authors (paper_of_article h article_data pmid) \<noteq> []"
  shows "set (author_items h article_data) \<noteq> {}"
  using assms by (auto simp: paper_of_article_def)

lemma items_empty_iff:
  assumes "is_permuting h"
  shows "set (author_items h article_data) = {} \<longleftrightarrow> set (affiliation_items h article_data) = {}"
  using assms
  by (simp add: author_items_def affiliation_items_def set_set_items names_empty_iff
                scan_authors_affs)

lemma affiliations_field_nonempty:
  assumes "is_permuting h" "set (affiliation_items h article_data) \<noteq> {}"
  shows "Company_Affiliations (paper_of_article h article_data pmid) \<noteq> []"
proof -
  have d: "distinct (affiliation_items h article_data)"
    using assms(1) by (simp add: affiliation_items_def distinct_set_items)
  have s: "set (affiliation_items h article_data) = set (non_academic_texts (author_list article_data))"
    using assms(1) by (simp add: affiliation_items_def set_set_items scan_authors_affs)
  from assms(2) obtain a where a: "a \<in> set (affiliation_items h article_data)"
    by (cases "affiliation_items h article_data") auto
  with s have "a \<noteq> []" by (simp add: non_academic_texts_nonempty)
  with a have "\<exists>x \<in> set (affiliation_items h article_data). x \<noteq> []" by blast
  then have "join '', '' (affiliation_items h article_data) \<noteq> []"
    using join_nonempty_iff [OF d, of "'', ''"] by simp
  then show ?thesis by (simp add: paper_of_article_def)
qed

section \<open>The sample inputs: facts\<close>

lemma acme_accepted: "is_non_academic_affiliation ''Acme Inc a@x.org''"
  by code_simp

lemma beta_accepted: "is_non_academic_affiliation ''Beta Ltd b@y.org''"
  by code_simp

lemma university_rejected: "\<not> is_non_academic_affiliation ''X University''"
  by code_simp

lemma acme_email: "re_search_email ''Acme Inc a@x.org'' = Some ''a@x.org''"
  by (simp add: match_email_def is_email_char_def is_word_char_def)

lemma beta_email: "re_search_email ''Beta Ltd b@y.org'' = Some ''b@y.org''"
  by (simp add: match_email_def is_email_char_def is_word_char_def)

lemma jane_name: "strip (''Jane'' @ '' '' @ ''Doe'') = ''Jane Doe''"
  by (simp add: strip_def is_space_def)

lemma john_name: "strip (''John'' @ '' '' @ ''Roe'') = ''John Roe''"
  by (simp add: strip_def is_space_def)

lemma jane_scan:
  "scan_author st jane_doe
     = st\<lparr>non_academic_authors := non_academic_authors st @ [''Jane Doe'', ''Jane Doe''],
          company_affiliations := company_affiliations st @ [''Acme Inc a@x.org'', ''Beta Ltd b@y.org''],
          corresponding_email := ''b@y.org''\<rparr>"
  by (simp add: scan_author_def scan_affiliation_def jane_doe_def Let_def
                acme_accepted beta_accepted acme_email beta_email jane_name [simplified]
           del: re_search_email.simps)

lemma john_scan:
  "scan_author st john_roe
     = st\<lparr>non_academic_authors := non_academic_authors st @ [''John Roe''],
          company_affiliations := company_affiliations st @ [''Acme Inc a@x.org''],
          corresponding_email := ''a@x.org''\<rparr>"
  by (simp add: scan_author_def scan_affiliation_def john_roe_def Let_def
                acme_accepted university_rejected acme_email john_name [simplified]
           del: re_search_email.simps)

lemma sample_scan:
  "scan_authors (author_list sample_article)
     = \<lparr>non_academic_authors = [''Jane Doe'', ''Jane Doe'', ''John Roe''],
        company_affiliations = [''Acme Inc a@x.org'', ''Beta Ltd b@y.org'', ''Acme Inc a@x.org''],
        corresponding_email = ''a@x.org''\<rparr>"
  by (simp add: scan_authors_def author_list_def sample_article_def jane_scan john_scan
                scan_init_def)

lemma two_email_scan:
  "scan_authors (author_list two_email_article)
     = \<lparr>non_academic_authors = [''Jane Doe'', ''Jane Doe''],
        company_affiliations = [''Acme Inc a@x.org'', ''Beta Ltd b@y.org''],
        corresponding_email = ''b@y.org''\<rparr>"
  by (simp add: scan_authors_def author_list_def two_email_article_def jane_scan scan_init_def)

lemma sample_title: "get_str (ArticleTitle sample_article) = ''A trial''"
  by (simp add: sample_article_def)

lemma sample_date: "date_str (pub_date_of sample_article) = ''2020-Jan-''"
  by (simp add: sample_article_def pub_date_of_def date_str_def)

lemma sample_paper: "paper_of_article id sample_article pmid = sample_summary pmid"
  by (simp add: paper_of_article_def author_items_def affiliation_items_def sample_scan
                set_items_def py_set_def set_add_def sample_title sample_date
                sample_summary_def)

lemma sample_paper_rev:
  "paper_of_article rev sample_article pmid
     = \<lparr>PubmedID = pmid, Title = ''A trial'', Publication_Date = ''2020-Jan-'',
        Non_academic_Authors = ''John Roe, Jane Doe'',
        Company_Affiliations = ''Beta Ltd b@y.org, Acme Inc a@x.org'',
        Corresponding_Author_Email = ''a@x.org''\<rparr>"
  by (simp add: paper_of_article_def author_items_def affiliation_items_def sample_scan
                set_items_def py_set_def set_add_def sample_title sample_date)

lemma sample_items:
  "author_items id sample_article = [''Jane Doe'', ''John Roe'']"
  "author_items rev sample_article = [''John Roe'', ''Jane Doe'']"
  "affiliation_items id sample_article = [''Acme Inc a@x.org'', ''Beta Ltd b@y.org'']"
  "affiliation_items rev sample_article = [''Beta Ltd b@y.org'', ''Acme Inc a@x.org'']"
  by (simp_all add: author_items_def affiliation_items_def sample_scan
                    set_items_def py_set_def set_add_def)

lemma sample_record_article: "article_of_record sample_record = Inr sample_article"
  by (simp add: article_of_record_def sample_record_def)

lemma sample_details:
  "fetch_paper_details (sample_efetch n) id pmid
     = (if pmid = ''B'' then Inl (ServiceError ''timeout'') else Inr (sample_summary pmid))"
  by (simp add: fetch_paper_details_def sample_efetch_def extract_paper_def
                sample_record_article sample_paper)

lemma sample_summary_named: "Non_academic_Authors (sample_summary pmid) \<noteq> []"
  by (simp add: sample_summary_def)

lemma sample_ids: "fetch_pubmed_ids sample_esearch query 20 = Inr [''A'', ''B'', ''C'']"
  by (simp add: fetch_pubmed_ids_def sample_esearch_def)

lemma sample_run:
  "fetch_papers sample_esearch sample_efetch id query debug sample_logger
     = (Inr [sample_summary ''A'', sample_summary ''C''],
        \<lparr>has_handlers = True, level = (if debug then 10 else 20),
          emitted = (if debug
                     then [Fetching_ids query, Found_ids [''A'', ''B'', ''C''],
                           Error_fetching ''B'' (ServiceError ''timeout'')]
                     else [Fetching_ids query,
                           Error_fetching ''B'' (ServiceError ''timeout'')])\<rparr>)"
  by (simp add: fetch_papers_def sample_ids sample_details sample_summary_named
                sample_logger_def basicConfig_def log_def DEBUG_def INFO_def ERROR_def)

lemma academic_scan: "scan_authors (author_list academic_article) = scan_init"
  by (simp add: scan_authors_def author_list_def academic_article_def scan_author_def
                scan_affiliation_def ann_lee_def university_rejected)



lemma scan_affiliation_names_list:
  "non_academic_authors (scan_affiliation au st aff)
     = non_academic_authors st
       @ map (\<lambda>a. full_name au) (filter is_non_academic_affiliation [get_str (Affiliation aff)])"
  by (simp add: scan_affiliation_def Let_def full_name_def split: option.splits)

lemma fold_affiliations_names_list:
  "non_academic_authors (foldl (scan_affiliation au) st affs)
     = non_academic_authors st
       @ map (\<lambda>a. full_name au)
           (filter is_non_academic_affiliation (map (\<lambda>aff. get_str (Affiliation aff)) affs))"
  by (induction affs arbitrary: st) (simp_all add: scan_affiliation_names_list)

lemma scan_author_names_list:
  "non_academic_authors (scan_author st au) = non_academic_authors st @ author_names au"
  by (simp add: scan_author_def author_names_def author_affiliation_texts_def
                fold_affiliations_names_list split: option.splits)

lemma fold_authors_names_list:
  "non_academic_authors (foldl scan_author st authors)
     = non_academic_authors st @ non_academic_names authors"
  by (induction authors arbitrary: st)
     (simp_all add: scan_author_names_list non_academic_names_def)

lemma scan_authors_names_list:
  "non_academic_authors (scan_authors authors) = non_academic_names authors"
  by (simp add: scan_authors_def fold_authors_names_list scan_init_def)

lemma set_non_academic_names:
  "set (non_academic_names authors)
     = {full_name au | au. au \<in> set authors
          \<and> (\<exists>a \<in> set (author_affiliation_texts au). is_non_academic_affiliation a)}"
  by (auto simp: non_academic_names_def author_names_def)

lemma set_non_academic_texts:
  "set (non_academic_texts authors)
     = {a. is_non_academic_affiliation a
          \<and> (\<exists>au \<in> set authors. a \<in> set (author_affiliation_texts au))}"
  by (auto simp: non_academic_texts_def affiliation_texts_def)

lemma set_author_items:
  "is_permuting h \<Longrightarrow>
   set (author_items h article_data)
     = {full_name au | au. au \<in> set (author_list article_data)
          \<and> (\<exists>a \<in> set (author_affiliation_texts au). is_non_academic_affiliation a)}"
  by (simp add: author_items_def set_set_items scan_authors_names_list set_non_academic_names)

lemma set_affiliation_items:
  "is_permuting h \<Longrightarrow>
   set (affiliation_items h article_data)
     = {a. is_non_academic_affiliation a
          \<and> (\<exists>au \<in> set (author_list article_data). a \<in> set (author_affiliation_texts au))}"
  by (simp add: affiliation_items_def set_set_items scan_authors_affs set_non_academic_texts)






lemma named_filter:
  assumes "is_permuting h" "[] \<notin> set (non_academic_names (author_list article_data))"
  shows "Non_academic_Authors (paper_of_article h article_data pmid) \<noteq> []
           \<longleftrightarrow> author_items h article_data \<noteq> []"
proof -
  have d: "distinct (author_items h article_data)"
    using assms(1) by (simp add: author_items_def distinct_set_items)
  have s: "set (author_items h article_data) = set (non_academic_names (author_list article_data))"
    using assms(1) by (simp add: author_items_def set_set_items scan_authors_names_list)
  have "(\<exists>x \<in> set (author_items h article_data). x \<noteq> []) \<longleftrightarrow> author_items h article_data \<noteq> []"
  proof
    assume "\<exists>x \<in> set (author_items h article_data). x \<noteq> []"
    then show "author_items h article_data \<noteq> []" by auto
  next
    assume "author_items h article_data \<noteq> []"
    then obtain x where x: "x \<in> set (author_items h article_data)"
      by (cases "author_items h article_data") auto
    with s assms(2) have "x \<noteq> []" by auto
    with x show "\<exists>x \<in> set (author_items h article_data). x \<noteq> []" by blast
  qed
  then show ?thesis
    using join_nonempty_iff [OF d, of "'', ''"] by (simp add: paper_of_article_def)
qed

lemma named_contribution:
  assumes "is_permuting h"
    and "\<And>r article_data. efetch n pmid = Inr r \<Longrightarrow> article_of_record r = Inr article_data
           \<Longrightarrow> [] \<notin> set (non_academic_names (author_list article_data))"
  shows "loop_contribution efetch h (n, pmid) = qualifying_contribution efetch h (n, pmid)"
proof (cases "efetch n pmid")
  case (Inl e)
  then show ?thesis
    by (simp add: loop_contribution_def qualifying_contribution_def fetch_paper_details_def)
next
  case (Inr r)
  show ?thesis
  proof (cases "article_of_record r")
    case (Inl e)
    with Inr show ?thesis
      by (simp add: loop_contribution_def qualifying_contribution_def fetch_paper_details_def
                    extract_paper_def)
  next
    case (Inr article_data)
    with \<open>efetch n pmid = Inr r\<close> assms(2)
    have "[] \<notin> set (non_academic_names (author_list article_data))" by blast
    from named_filter [OF assms(1) this, of pmid] Inr \<open>efetch n pmid = Inr r\<close> show ?thesis
      by (simp add: loop_contribution_def qualifying_contribution_def fetch_paper_details_def
                    extract_paper_def)
  qed
qed

text \<open>
  When no collected name is empty, the loop returns exactly the qualifying summaries.
\<close>

lemma named_batch:
  assumes "is_permuting h"
    and "\<And>n pmid r article_data. efetch n pmid = Inr r \<Longrightarrow> article_of_record r = Inr article_data
           \<Longrightarrow> [] \<notin> set (non_academic_names (author_list article_data))"
  shows "loop_summaries efetch h pmids = qualifying_summaries efetch h pmids"
proof -
  have "loop_contribution efetch h = qualifying_contribution efetch h"
  proof (rule ext)
    fix np
    show "loop_contribution efetch h np = qualifying_contribution efetch h np"
      using named_contribution [OF assms(1), of efetch "fst np" "snd np"] assms(2) by simp
  qed
  then show ?thesis
    by (simp add: loop_summaries_def qualifying_summaries_def)
qed

text \<open>
  So the batch returns the qualifying summaries whenever no collected name is empty,
  whatever identifiers fail.
\<close>

lemma named_batch_result:
  assumes "is_permuting h"
    and "fetch_pubmed_ids esearch query 20 = Inr pmids"
    and "\<And>n pmid r article_data. efetch n pmid = Inr r \<Longrightarrow> article_of_record r = Inr article_data
           \<Longrightarrow> [] \<notin> set (non_academic_names (author_list article_data))"
  shows "fst (fetch_papers esearch efetch h query debug lg)
           = Inr (qualifying_summaries efetch h pmids)"
  using named_batch [OF assms(1), of efetch pmids] assms(2,3)
  by (simp add: fetch_papers_found)

section \<open>The classifier\<close>

text \<open>
  C2. The classifier returns true exactly when some non-academic keyword occurs in the
  text, ignoring case, and no academic keyword does. So a text with keywords of both
  lists is classified false, a text with no keyword is classified false, and so is
  the empty text.
\<close>

theorem classifier_iff:
  "(is_non_academic_affiliation s
      \<longleftrightarrow> has_keyword non_academic_keywords s \<and> \<not> has_keyword academic_keywords s)
   \<and> (has_keyword non_academic_keywords s \<and> has_keyword academic_keywords s
        \<longrightarrow> \<not> is_non_academic_affiliation s)
   \<and> (\<not> has_keyword non_academic_keywords s \<and> \<not> has_keyword academic_keywords s
        \<longrightarrow> \<not> is_non_academic_affiliation s)
   \<and> \<not> is_non_academic_affiliation []"
  using classifier_empty by (simp add: classifier_spec)

theorem classifier_iff_witness:
  "has_keyword non_academic_keywords ''Acme Pharma Inc''
   \<and> \<not> has_keyword academic_keywords ''Acme Pharma Inc''
   \<and> has_keyword non_academic_keywords ''Biotech Lab, X University''
   \<and> has_keyword academic_keywords ''Biotech Lab, X University''
   \<and> \<not> is_non_academic_affiliation ''Biotech Lab, X University''
   \<and> \<not> has_keyword non_academic_keywords ''Kew Gardens''
   \<and> \<not> has_keyword academic_keywords ''Kew Gardens''
   \<and> \<not> is_non_academic_affiliation ''Kew Gardens''"
proof -
  have a: "is_non_academic_affiliation ''Acme Pharma Inc''" by code_simp
  have b1: "any (\<lambda>k. str_in k (lower ''Biotech Lab, X University'')) non_academic_keywords"
    by code_simp
  have b2: "any (\<lambda>k. str_in k (lower ''Biotech Lab, X University'')) academic_keywords"
    by code_simp
  have c1: "\<not> any (\<lambda>k. str_in k (lower ''Kew Gardens'')) non_academic_keywords"
    by code_simp
  have c2: "\<not> any (\<lambda>k. str_in k (lower ''Kew Gardens'')) academic_keywords"
    by code_simp
  show ?thesis
    using a b1 b2 c1 c2
      classifier_iff [of "''Acme Pharma Inc''"]
      classifier_iff [of "''Biotech Lab, X University''"]
      classifier_iff [of "''Kew Gardens''"]
    by (simp add: any_keyword)
qed

text \<open>
  C5, as the code has it. The classifier reads its argument through \<open>str.lower()\<close>
  only: two texts with the same lower-case form are classified alike, and so are two
  texts that differ only in the case of their ASCII letters.
\<close>

theorem classifier_case_insensitive:
  assumes "ascii_case_variant s t \<or> lower s = lower t"
  shows "is_non_academic_affiliation s = is_non_academic_affiliation t"
proof -
  from assms have "lower s = lower t"
    using ascii_case_variant_lower by blast
  then show ?thesis by (simp add: is_non_academic_affiliation_def)
qed

theorem classifier_case_insensitive_witness:
  "ascii_case_variant ''BIOTECH INC'' ''biotech inc''
   \<and> is_non_academic_affiliation ''BIOTECH INC'' = is_non_academic_affiliation ''biotech inc''
   \<and> is_non_academic_affiliation ''biotech inc''"
proof -
  have v: "ascii_case_variant ''BIOTECH INC'' ''biotech inc''" by code_simp
  have t: "is_non_academic_affiliation ''biotech inc''" by code_simp
  show ?thesis
    using v t classifier_case_insensitive [OF disjI1 [OF v]] by simp
qed

text \<open>
  C5 as stated fails for a case variant that \<open>str.lower()\<close> does not bring back: the
  text \<open>\<ss>chool pharma\<close>, with the sharp s of code 223, is accepted, and its upper case
  \<open>SSCHOOL PHARMA\<close> holds the academic keyword \<open>school\<close> and is rejected.
\<close>

theorem classifier_upper_case_counterexample:
  "upper (CHR 0xDF # ''chool pharma'') = Some ''SSCHOOL PHARMA''
   \<and> is_non_academic_affiliation (CHR 0xDF # ''chool pharma'')
   \<and> \<not> is_non_academic_affiliation ''SSCHOOL PHARMA''"
proof -
  have u: "upper (CHR 0xDF # ''chool pharma'') = Some ''SSCHOOL PHARMA''" by code_simp
  have a: "is_non_academic_affiliation (CHR 0xDF # ''chool pharma'')" by code_simp
  have r: "\<not> is_non_academic_affiliation ''SSCHOOL PHARMA''" by code_simp
  show ?thesis by (intro conjI) (rule u a r)+
qed

section \<open>The extraction\<close>

text \<open>
  C1, as the code has it. The loop assigns the corresponding e-mail at every accepted
  affiliation in which the pattern matches, so the summary holds the match of the last
  such affiliation in scanning order, and the empty text when there is none.
\<close>

theorem email_last_match_wins:
  "Corresponding_Author_Email (paper_of_article h article_data pmid)
     = last_email (scanned_emails (author_list article_data))"
  by (simp add: paper_of_article_def scan_authors_email)

theorem email_last_match_wins_witness:
  "Corresponding_Author_Email (paper_of_article id two_email_article ''1'') = ''b@y.org''
   \<and> last_email (scanned_emails (author_list two_email_article)) = ''b@y.org''"
  using email_last_match_wins [of id two_email_article "''1''"]
  by (simp add: paper_of_article_def two_email_scan)

text \<open>
  C1 as stated fails: Jane Doe has two accepted affiliations, with \<open>a@x.org\<close> in the
  first and \<open>b@y.org\<close> in the second, and the summary holds the second address.
\<close>

theorem email_first_match_counterexample:
  "first_email (scanned_emails (author_list two_email_article)) = ''a@x.org''
   \<and> Corresponding_Author_Email (paper_of_article id two_email_article ''1'') = ''b@y.org''
   \<and> Corresponding_Author_Email (paper_of_article id two_email_article ''1'')
       \<noteq> first_email (scanned_emails (author_list two_email_article))"
proof -
  have "non_academic_texts (author_list two_email_article)
          = [''Acme Inc a@x.org'', ''Beta Ltd b@y.org'']"
    using scan_authors_affs [of "author_list two_email_article"]
    by (simp add: two_email_scan)
  then have "scanned_emails (author_list two_email_article) = [''a@x.org'', ''b@y.org'']"
    by (simp add: scanned_emails_def List.map_filter_def acme_email beta_email
             del: re_search_email.simps)
  then show ?thesis
    by (simp add: paper_of_article_def two_email_scan)
qed

text \<open>
  C6. The two multi-valued fields are the members of a set joined by a comma and a
  blank. The set of authors holds exactly the display names of the authors with an
  affiliation that the classifier accepts, the set of affiliations exactly the accepted
  affiliation texts, and no member occurs twice: a name or an accepted text occurs
  exactly once, however many authors or affiliations carry it.
\<close>

theorem fields_deduplicated:
  assumes "is_permuting h"
  shows "Non_academic_Authors (paper_of_article h article_data pmid)
           = join '', '' (author_items h article_data)
         \<and> Company_Affiliations (paper_of_article h article_data pmid)
           = join '', '' (affiliation_items h article_data)
         \<and> distinct (author_items h article_data)
         \<and> distinct (affiliation_items h article_data)
         \<and> set (author_items h article_data)
             = {full_name au | au. au \<in> set (author_list article_data)
                  \<and> (\<exists>a \<in> set (author_affiliation_texts au). is_non_academic_affiliation a)}
         \<and> set (affiliation_items h article_data)
             = {a. is_non_academic_affiliation a
                  \<and> (\<exists>au \<in> set (author_list article_data). a \<in> set (author_affiliation_texts au))}
         \<and> (au \<in> set (author_list article_data) \<and> a \<in> set (author_affiliation_texts au)
              \<and> is_non_academic_affiliation a
            \<longrightarrow> count_list (affiliation_items h article_data) a = 1
                \<and> count_list (author_items h article_data) (full_name au) = 1)"
proof -
  have d1: "distinct (author_items h article_data)"
    using assms by (simp add: author_items_def distinct_set_items)
  have d2: "distinct (affiliation_items h article_data)"
    using assms by (simp add: affiliation_items_def distinct_set_items)
  note s1 = set_author_items [OF assms, of article_data]
  note s2 = set_affiliation_items [OF assms, of article_data]
  have c: "count_list (affiliation_items h article_data) a = 1
           \<and> count_list (author_items h article_data) (full_name au) = 1"
    if "au \<in> set (author_list article_data)" "a \<in> set (author_affiliation_texts au)"
       "is_non_academic_affiliation a"
  proof -
    from that have "a \<in> set (affiliation_items h article_data)"
      unfolding s2 by blast
    moreover from that have "full_name au \<in> set (author_items h article_data)"
      unfolding s1 by blast
    ultimately show ?thesis using d1 d2 by (simp add: count_list_distinct)
  qed
  have f1: "Non_academic_Authors (paper_of_article h article_data pmid)
           = join '', '' (author_items h article_data)"
    by (simp add: paper_of_article_def)
  have f2: "Company_Affiliations (paper_of_article h article_data pmid)
           = join '', '' (affiliation_items h article_data)"
    by (simp add: paper_of_article_def)
  from c have c': "au \<in> set (author_list article_data) \<and> a \<in> set (author_affiliation_texts au)
              \<and> is_non_academic_affiliation a
            \<longrightarrow> count_list (affiliation_items h article_data) a = 1
                \<and> count_list (author_items h article_data) (full_name au) = 1"
    by blast
  show ?thesis
    by (intro conjI) (rule f1 f2 d1 d2 s1 s2 c')+
qed

theorem fields_deduplicated_witness:
  "is_permuting rev
   \<and> jane_doe \<in> set (author_list sample_article)
   \<and> john_roe \<in> set (author_list sample_article)
   \<and> ''Acme Inc a@x.org'' \<in> set (author_affiliation_texts jane_doe)
   \<and> ''Acme Inc a@x.org'' \<in> set (author_affiliation_texts john_roe)
   \<and> is_non_academic_affiliation ''Acme Inc a@x.org''
   \<and> count_list (company_affiliations (scan_authors (author_list sample_article)))
        ''Acme Inc a@x.org'' = 2
   \<and> count_list (non_academic_authors (scan_authors (author_list sample_article)))
        ''Jane Doe'' = 2
   \<and> count_list (affiliation_items rev sample_article) ''Acme Inc a@x.org'' = 1
   \<and> count_list (author_items rev sample_article) (full_name jane_doe) = 1
   \<and> full_name jane_doe = ''Jane Doe''
   \<and> author_items rev sample_article = [''John Roe'', ''Jane Doe'']
   \<and> affiliation_items rev sample_article = [''Beta Ltd b@y.org'', ''Acme Inc a@x.org'']
   \<and> Non_academic_Authors (paper_of_article rev sample_article ''A'') = ''John Roe, Jane Doe''
   \<and> distinct (affiliation_items rev sample_article)
   \<and> distinct (author_items rev sample_article)"
proof -
  have a1: "jane_doe \<in> set (author_list sample_article)"
    by (simp add: author_list_def sample_article_def)
  have a2: "john_roe \<in> set (author_list sample_article)"
    by (simp add: author_list_def sample_article_def)
  have t1: "''Acme Inc a@x.org'' \<in> set (author_affiliation_texts jane_doe)"
    by (simp add: author_affiliation_texts_def jane_doe_def)
  have t2: "''Acme Inc a@x.org'' \<in> set (author_affiliation_texts john_roe)"
    by (simp add: author_affiliation_texts_def john_roe_def)
  have c: "count_list (company_affiliations (scan_authors (author_list sample_article)))
        ''Acme Inc a@x.org'' = 2"
    by (simp add: sample_scan)
  have n: "count_list (non_academic_authors (scan_authors (author_list sample_article)))
        ''Jane Doe'' = 2"
    by (simp add: sample_scan)
  have fn: "full_name jane_doe = ''Jane Doe''"
    using jane_name by (simp add: full_name_def jane_doe_def)
  have p: "Non_academic_Authors (paper_of_article rev sample_article ''A'') = ''John Roe, Jane Doe''"
    by (simp add: sample_paper_rev)
  note f = fields_deduplicated [OF is_permuting_rev, of sample_article "''A''" jane_doe
      "''Acme Inc a@x.org''"]
  note g = f [THEN conjunct2, THEN conjunct2]
  have d1: "distinct (author_items rev sample_article)"
    by (rule g [THEN conjunct1])
  have d2: "distinct (affiliation_items rev sample_article)"
    by (rule g [THEN conjunct2, THEN conjunct1])
  note k = g [THEN conjunct2, THEN conjunct2, THEN conjunct2, THEN conjunct2, THEN mp,
              OF conjI [OF a1 conjI [OF t1 acme_accepted]]]
  have c1: "count_list (affiliation_items rev sample_article) ''Acme Inc a@x.org'' = 1"
    by (rule k [THEN conjunct1])
  have c2: "count_list (author_items rev sample_article) (full_name jane_doe) = 1"
    by (rule k [THEN conjunct2])
  show ?thesis
    by (intro conjI)
       (rule is_permuting_rev a1 a2 t1 t2 acme_accepted c n c1 c2 fn sample_items p d2 d1)+
qed

text \<open>
  C7, as the code has it. The publication date is the year, the month and the day of
  the record joined by two dashes, a missing component being the empty segment; a
  record without journal, journal issue or publication date gives two dashes. The
  date splits at the dashes into exactly these three segments when no component holds
  a dash itself.
\<close>

theorem publication_date_three_segments:
  assumes "D = Publication_Date (paper_of_article h article_data pmid)"
  shows "(Journal article_data = None \<longrightarrow> D = ''--'')
         \<and> (Journal article_data = Some j \<and> JournalIssue j = None \<longrightarrow> D = ''--'')
         \<and> (Journal article_data = Some j \<and> JournalIssue j = Some ji \<and> PubDate ji = None
            \<longrightarrow> D = ''--'')
         \<and> (Journal article_data = Some j \<and> JournalIssue j = Some ji
              \<and> PubDate ji = Some \<lparr>Year = y, Month = m, Day = d\<rparr>
            \<longrightarrow> D = segment y @ ''-'' @ segment m @ ''-'' @ segment d
                \<and> (CHR ''-'' \<notin> set (segment y) \<and> CHR ''-'' \<notin> set (segment m)
                     \<and> CHR ''-'' \<notin> set (segment d)
                   \<longrightarrow> split_on CHR ''-'' D = [segment y, segment m, segment d]))"
proof -
  have g: "get_str x = segment x" for x
    by (cases x) simp_all
  have n1: "D = ''--''" if "Journal article_data = None"
    using that assms by (simp add: paper_of_article_def date_str_def pub_date_of_def)
  have n2: "D = ''--''" if "Journal article_data = Some j" "JournalIssue j = None"
    using that assms by (simp add: paper_of_article_def date_str_def pub_date_of_def)
  have n3: "D = ''--''"
    if "Journal article_data = Some j" "JournalIssue j = Some ji" "PubDate ji = None"
    using that assms by (simp add: paper_of_article_def date_str_def pub_date_of_def)
  have p: "D = segment y @ CHR ''-'' # segment m @ CHR ''-'' # segment d"
    if "Journal article_data = Some j" "JournalIssue j = Some ji"
       "PubDate ji = Some \<lparr>Year = y, Month = m, Day = d\<rparr>"
    using that assms by (simp add: paper_of_article_def date_str_def pub_date_of_def g)
  have s: "split_on CHR ''-'' (segment y @ CHR ''-'' # segment m @ CHR ''-'' # segment d)
           = [segment y, segment m, segment d]"
    if "CHR ''-'' \<notin> set (segment y)" "CHR ''-'' \<notin> set (segment m)"
       "CHR ''-'' \<notin> set (segment d)"
    using that by (simp add: split_on_append split_on_plain)
  show ?thesis using n1 n2 n3 p s by simp
qed

theorem publication_date_three_segments_witness:
  "Journal two_email_article = None
   \<and> Publication_Date (paper_of_article id two_email_article ''1'') = ''--''
   \<and> Journal no_issue_article = Some \<lparr>JournalIssue = None\<rparr>
   \<and> Publication_Date (paper_of_article id no_issue_article ''1'') = ''--''
   \<and> Journal no_pubdate_article = Some \<lparr>JournalIssue = Some \<lparr>PubDate = None\<rparr>\<rparr>
   \<and> Publication_Date (paper_of_article id no_pubdate_article ''1'') = ''--''
   \<and> Journal sample_article
       = Some \<lparr>JournalIssue = Some \<lparr>PubDate = Some \<lparr>Year = Some ''2020'', Month = Some ''Jan'',
                                                       Day = None\<rparr>\<rparr>\<rparr>
   \<and> Publication_Date (paper_of_article id sample_article ''A'') = ''2020-Jan-''
   \<and> split_on CHR ''-'' (Publication_Date (paper_of_article id sample_article ''A''))
       = [''2020'', ''Jan'', []]"
proof -
  have j1: "Journal two_email_article = None"
    by (simp add: two_email_article_def)
  have j2: "Journal no_issue_article = Some \<lparr>JournalIssue = None\<rparr>"
    by (simp add: no_issue_article_def)
  have j3: "Journal no_pubdate_article = Some \<lparr>JournalIssue = Some \<lparr>PubDate = None\<rparr>\<rparr>"
    by (simp add: no_pubdate_article_def)
  have j4: "Journal sample_article
       = Some \<lparr>JournalIssue = Some \<lparr>PubDate = Some \<lparr>Year = Some ''2020'', Month = Some ''Jan'',
                                                       Day = None\<rparr>\<rparr>\<rparr>"
    by (simp add: sample_article_def)
  have d1: "Publication_Date (paper_of_article id two_email_article ''1'') = ''--''"
    using publication_date_three_segments [where h = id and article_data = two_email_article
        and pmid = "''1''", OF refl] j1
    by blast
  have d2: "Publication_Date (paper_of_article id no_issue_article ''1'') = ''--''"
    using publication_date_three_segments [where h = id and article_data = no_issue_article
        and pmid = "''1''" and j = "\<lparr>JournalIssue = None\<rparr>", OF refl] j2
    by simp
  have d3: "Publication_Date (paper_of_article id no_pubdate_article ''1'') = ''--''"
    using publication_date_three_segments [where h = id and article_data = no_pubdate_article
        and pmid = "''1''" and j = "\<lparr>JournalIssue = Some \<lparr>PubDate = None\<rparr>\<rparr>"
        and ji = "\<lparr>PubDate = None\<rparr>", OF refl] j3
    by simp
  note t = publication_date_three_segments [where h = id and article_data = sample_article
        and pmid = "''A''"
        and j = "\<lparr>JournalIssue = Some \<lparr>PubDate = Some \<lparr>Year = Some ''2020'',
                                                         Month = Some ''Jan'', Day = None\<rparr>\<rparr>\<rparr>"
        and ji = "\<lparr>PubDate = Some \<lparr>Year = Some ''2020'', Month = Some ''Jan'', Day = None\<rparr>\<rparr>"
        and y = "Some ''2020''" and m = "Some ''Jan''" and d = None, OF refl]
  have d4: "Publication_Date (paper_of_article id sample_article ''A'') = ''2020-Jan-''"
    using t j4 by simp
  have s4: "split_on CHR ''-'' (Publication_Date (paper_of_article id sample_article ''A''))
       = [''2020'', ''Jan'', []]"
    using t j4 by simp
  show ?thesis
    by (intro conjI) (rule j1 d1 j2 d2 j3 d3 j4 d4 s4)+
qed

text \<open>
  C7 as stated fails when a component holds the separator: with the month
  \<open>Jan-Feb\<close> the date splits into four segments.
\<close>

theorem publication_date_split_counterexample:
  "Publication_Date (paper_of_article id dashed_article ''1'') = ''2020-Jan-Feb-15''
   \<and> split_on CHR ''-'' (Publication_Date (paper_of_article id dashed_article ''1''))
       = [''2020'', ''Jan'', ''Feb'', ''15'']
   \<and> length (split_on CHR ''-'' (Publication_Date (paper_of_article id dashed_article ''1'')))
       \<noteq> 3"
  by (simp add: paper_of_article_def date_str_def pub_date_of_def dashed_article_def)

text \<open>
  C8. Extraction is a function of the raw record, the identifier and the order \<open>h\<close> in
  which sets are iterated. Two extractions of one record, whatever their iteration
  orders, fail alike or agree on the identifier, the title, the date and the e-mail, and
  their two multi-valued fields are joined from the same sets of members.
\<close>

theorem extraction_idempotent:
  assumes "is_permuting h1" "is_permuting h2"
  shows "case article_of_record r of
           Inl e \<Rightarrow> extract_paper h1 r pmid = Inl e \<and> extract_paper h2 r pmid = Inl e
         | Inr article_data \<Rightarrow>
             (\<exists>p q. extract_paper h1 r pmid = Inr p \<and> extract_paper h2 r pmid = Inr q
                \<and> PubmedID p = PubmedID q \<and> Title p = Title q
                \<and> Publication_Date p = Publication_Date q
                \<and> Corresponding_Author_Email p = Corresponding_Author_Email q
                \<and> Non_academic_Authors p = join '', '' (author_items h1 article_data)
                \<and> Non_academic_Authors q = join '', '' (author_items h2 article_data)
                \<and> set (author_items h1 article_data) = set (author_items h2 article_data)
                \<and> Company_Affiliations p = join '', '' (affiliation_items h1 article_data)
                \<and> Company_Affiliations q = join '', '' (affiliation_items h2 article_data)
                \<and> set (affiliation_items h1 article_data) = set (affiliation_items h2 article_data))"
proof (cases "article_of_record r")
  case (Inl e)
  then show ?thesis by (simp add: extract_paper_def)
next
  case (Inr article_data)
  have a: "set (author_items h1 article_data) = set (author_items h2 article_data)"
    using assms by (simp add: author_items_def set_set_items)
  have b: "set (affiliation_items h1 article_data) = set (affiliation_items h2 article_data)"
    using assms by (simp add: affiliation_items_def set_set_items)
  from Inr a b show ?thesis
    by (simp add: extract_paper_def paper_of_article_def)
qed

theorem extraction_idempotent_witness:
  "is_permuting id \<and> is_permuting rev
   \<and> (\<exists>p q. extract_paper id sample_record ''A'' = Inr p
          \<and> extract_paper rev sample_record ''A'' = Inr q
          \<and> PubmedID p = PubmedID q \<and> Title p = Title q
          \<and> Publication_Date p = Publication_Date q
          \<and> Corresponding_Author_Email p = Corresponding_Author_Email q
          \<and> Non_academic_Authors p = ''Jane Doe, John Roe''
          \<and> Non_academic_Authors q = ''John Roe, Jane Doe''
          \<and> set (author_items id sample_article) = set (author_items rev sample_article)
          \<and> set (affiliation_items id sample_article) = set (affiliation_items rev sample_article))"
  using extraction_idempotent [OF is_permuting_id is_permuting_rev, of sample_record "''A''"]
        is_permuting_id is_permuting_rev
  by (simp add: sample_record_article extract_paper_def sample_paper sample_paper_rev
                sample_summary_def sample_items)

section \<open>The pipeline\<close>

text \<open>
  C10. The set of author names is empty exactly when the set of company affiliations
  is, and then the e-mail is empty too. Every summary that \<open>fetch_papers\<close> returns
  has a non-empty set of company affiliations, and a non-empty affiliation field.
\<close>

theorem names_affiliations_email_together:
  assumes "is_permuting h"
  shows "(set (author_items h article_data) = {} \<longleftrightarrow> set (affiliation_items h article_data) = {})
         \<and> (set (author_items h article_data) = {}
            \<longrightarrow> Corresponding_Author_Email (paper_of_article h article_data pmid) = [])
         \<and> (fst (fetch_papers esearch efetch h query debug lg) = Inr papers \<and> p \<in> set papers
            \<longrightarrow> Company_Affiliations p \<noteq> []
                \<and> (\<exists>n pmid' r art. efetch n pmid' = Inr r \<and> article_of_record r = Inr art
                      \<and> p = paper_of_article h art pmid'
                      \<and> set (affiliation_items h art) \<noteq> {}))"
proof -
  have e: "Corresponding_Author_Email (paper_of_article h article_data pmid) = []"
    if "set (author_items h article_data) = {}"
  proof -
    from that assms have "non_academic_texts (author_list article_data) = []"
      by (simp add: author_items_def set_set_items names_empty_iff)
    then show ?thesis
      by (simp add: paper_of_article_def scan_authors_email scanned_emails_def
                    List.map_filter_def)
  qed
  have s: "Company_Affiliations p \<noteq> []
           \<and> (\<exists>n pmid' r art. efetch n pmid' = Inr r \<and> article_of_record r = Inr art
                 \<and> p = paper_of_article h art pmid' \<and> set (affiliation_items h art) \<noteq> {})"
    if "fst (fetch_papers esearch efetch h query debug lg) = Inr papers" "p \<in> set papers"
  proof -
    from surfaced_paper [OF that] obtain n pmid' r art where
      n: "Non_academic_Authors p \<noteq> []" and r: "efetch n pmid' = Inr r"
      and a: "article_of_record r = Inr art" and p: "p = paper_of_article h art pmid'"
      by blast
    from n p have "set (author_items h art) \<noteq> {}"
      using named_author_items [OF assms] by blast
    then have i: "set (affiliation_items h art) \<noteq> {}"
      using items_empty_iff [OF assms] by blast
    then have "Company_Affiliations p \<noteq> []"
      using affiliations_field_nonempty [OF assms] p by blast
    with r a p i show ?thesis by blast
  qed
  show ?thesis
    using items_empty_iff [OF assms, of article_data] e s by blast
qed

text \<open>
  C3. Every summary that \<open>fetch_papers\<close> returns was extracted from a record that the
  service returned, has a non-empty author field and a non-empty set of non-academic
  authors.
\<close>

theorem surfaced_summaries_have_authors:
  assumes "is_permuting h"
    and "fst (fetch_papers esearch efetch h query debug lg) = Inr papers"
    and "p \<in> set papers"
  shows "Non_academic_Authors p \<noteq> []
         \<and> (\<exists>n pmid r article_data. efetch n pmid = Inr r
               \<and> article_of_record r = Inr article_data
               \<and> p = paper_of_article h article_data pmid
               \<and> set (author_items h article_data) \<noteq> {})"
proof -
  from surfaced_paper [OF assms(2,3)] obtain n pmid r article_data where
    n: "Non_academic_Authors p \<noteq> []" and r: "efetch n pmid = Inr r"
    and a: "article_of_record r = Inr article_data"
    and p: "p = paper_of_article h article_data pmid"
    by blast
  from n p have "set (author_items h article_data) \<noteq> {}"
    using named_author_items [OF assms(1)] by blast
  with n r a p show ?thesis by blast
qed


text \<open>
  C9. The debug flag changes the logger and nothing else: the value returned is the
  same with and without it.
\<close>

theorem debug_flag_does_not_change_result:
  "fst (fetch_papers esearch efetch h query True lg)
     = fst (fetch_papers esearch efetch h query False lg)"
  by (cases "fetch_pubmed_ids esearch query 20")
     (simp_all add: fetch_papers_failed fetch_papers_found)

theorem names_affiliations_email_together_witness:
  "is_permuting id
   \<and> set (author_items id academic_article) = {}
   \<and> set (affiliation_items id academic_article) = {}
   \<and> Corresponding_Author_Email (paper_of_article id academic_article ''1'') = []
   \<and> set (author_items id sample_article) \<noteq> {}
   \<and> set (affiliation_items id sample_article) \<noteq> {}
   \<and> fst (fetch_papers sample_esearch sample_efetch id ''q'' False sample_logger)
       = Inr [sample_summary ''A'', sample_summary ''C'']
   \<and> sample_summary ''A'' \<in> set [sample_summary ''A'', sample_summary ''C'']
   \<and> Company_Affiliations (sample_summary ''A'') \<noteq> []"
proof -
  have r: "fst (fetch_papers sample_esearch sample_efetch id ''q'' False sample_logger)
             = Inr [sample_summary ''A'', sample_summary ''C'']"
    by (simp add: sample_run)
  have m: "sample_summary ''A'' \<in> set [sample_summary ''A'', sample_summary ''C'']"
    by simp
  have e: "set (author_items id academic_article) = {}"
    by (simp add: author_items_def academic_scan scan_init_def set_items_def py_set_def)
  note t1 = names_affiliations_email_together [OF is_permuting_id,
      where article_data = academic_article and pmid = "''1''"
      and esearch = sample_esearch and efetch = sample_efetch and query = "''q''"
      and debug = False and lg = sample_logger
      and papers = "[sample_summary ''A'', sample_summary ''C'']" and p = "sample_summary ''A''"]
  note t2 = names_affiliations_email_together [OF is_permuting_id,
      where article_data = sample_article and pmid = "''1''"
      and esearch = sample_esearch and efetch = sample_efetch and query = "''q''"
      and debug = False and lg = sample_logger
      and papers = "[sample_summary ''A'', sample_summary ''C'']" and p = "sample_summary ''A''"]
  have a: "set (affiliation_items id academic_article) = {}"
    using t1 e by blast
  have c: "Corresponding_Author_Email (paper_of_article id academic_article ''1'') = []"
    using t1 e by blast
  have n: "set (author_items id sample_article) \<noteq> {}"
    by (simp add: sample_items)
  have n2: "set (affiliation_items id sample_article) \<noteq> {}"
    using t2 n by blast
  have f: "Company_Affiliations (sample_summary ''A'') \<noteq> []"
    using t2 r m by blast
  show ?thesis
    by (intro conjI) (rule is_permuting_id e a c n n2 r m f)+
qed

theorem surfaced_summaries_have_authors_witness:
  "is_permuting id
   \<and> fst (fetch_papers sample_esearch sample_efetch id ''q'' False sample_logger)
       = Inr [sample_summary ''A'', sample_summary ''C'']
   \<and> sample_summary ''C'' \<in> set [sample_summary ''A'', sample_summary ''C'']
   \<and> Non_academic_Authors (sample_summary ''C'') \<noteq> []
   \<and> (\<exists>n pmid r article_data. sample_efetch n pmid = Inr r
         \<and> article_of_record r = Inr article_data
         \<and> sample_summary ''C'' = paper_of_article id article_data pmid
         \<and> set (author_items id article_data) \<noteq> {})"
proof -
  have r: "fst (fetch_papers sample_esearch sample_efetch id ''q'' False sample_logger)
             = Inr [sample_summary ''A'', sample_summary ''C'']"
    by (simp add: sample_run)
  have m: "sample_summary ''C'' \<in> set [sample_summary ''A'', sample_summary ''C'']"
    by simp
  note t = surfaced_summaries_have_authors [OF is_permuting_id r m]
  show ?thesis
    by (intro conjI) (rule is_permuting_id r m t [THEN conjunct1] t [THEN conjunct2])+
qed

theorem debug_flag_does_not_change_result_witness:
  "fst (fetch_papers sample_esearch sample_efetch id ''q'' True sample_logger)
     = fst (fetch_papers sample_esearch sample_efetch id ''q'' False sample_logger)
   \<and> fst (fetch_papers sample_esearch sample_efetch id ''q'' True sample_logger)
       = Inr [sample_summary ''A'', sample_summary ''C'']
   \<and> emitted (snd (fetch_papers sample_esearch sample_efetch id ''q'' True sample_logger))
       \<noteq> emitted (snd (fetch_papers sample_esearch sample_efetch id ''q'' False sample_logger))"
proof -
  have l: "emitted (snd (fetch_papers sample_esearch sample_efetch id ''q'' True sample_logger))
       \<noteq> emitted (snd (fetch_papers sample_esearch sample_efetch id ''q'' False sample_logger))"
    by (simp add: sample_run)
  have r: "fst (fetch_papers sample_esearch sample_efetch id ''q'' True sample_logger)
       = Inr [sample_summary ''A'', sample_summary ''C'']"
    by (simp add: sample_run)
  show ?thesis
    by (intro conjI)
       (rule debug_flag_does_not_change_result [where esearch = sample_esearch
               and efetch = sample_efetch and h = id and query = "''q''"
               and lg = sample_logger] r l)+
qed

end
